theory Spec2Isabelle
  imports Main "HOL-Library.Word"
begin

unbundle bit_operations_syntax

section \<open>acrnprobe/probeutils.c: event ids, log directories, crash files, boot id\<close>

text \<open>
  A shallow embedding of \<^verbatim>\<open>tools/acrn-crashlog/acrnprobe/probeutils.c\<close>.
  C strings are \<open>string\<close>s (the bytes before the terminating NUL), a pointer that may
  be NULL is an \<open>option\<close>, \<open>unsigned int\<close> is \<open>32 word\<close>, \<open>long long\<close> is \<open>64 word\<close>
  read with \<open>sint\<close>, and everything the functions read from or write to the machine
  (clocks, files, directories, the allocator, the configuration) is a field of the
  record \<open>world\<close>, passed in and returned.
\<close>

subsection \<open>The printf conversions the file uses\<close>

definition digit_char :: "nat \<Rightarrow> char" where
  "digit_char d = ''0123456789abcdef'' ! d"

text \<open>\<^verbatim>\<open>%u\<close> and the digits of \<^verbatim>\<open>%d\<close>, \<^verbatim>\<open>%lld\<close>: decimal, most significant digit first.\<close>

function dec_nat :: "nat \<Rightarrow> string" where
  "dec_nat n = (if n < 10 then [digit_char n] else dec_nat (n div 10) @ [digit_char (n mod 10)])"
  by pat_completeness auto
termination
  by (relation "measure id") auto

declare dec_nat.simps [simp del]

text \<open>\<^verbatim>\<open>%d\<close> and \<^verbatim>\<open>%lld\<close> on the value of the signed argument.\<close>

definition fmt_d :: "int \<Rightarrow> string" where
  "fmt_d i = (if i < 0 then ''-'' @ dec_nat (nat (- i)) else dec_nat (nat i))"

text \<open>\<^verbatim>\<open>%0wd\<close>: zeros fill the field up to width w; a minus sign counts in the width.\<close>

definition fmt_0d :: "nat \<Rightarrow> int \<Rightarrow> string" where
  "fmt_0d w i =
     (if i < 0
      then ''-'' @ replicate (w - 1 - length (dec_nat (nat (- i)))) CHR ''0'' @ dec_nat (nat (- i))
      else replicate (w - length (dec_nat (nat i))) CHR ''0'' @ dec_nat (nat i))"

text \<open>\<^verbatim>\<open>%02x\<close> on an \<open>unsigned char\<close>: two lowercase hexadecimal digits.\<close>

definition fmt_02x :: "8 word \<Rightarrow> string" where
  "fmt_02x b = [digit_char (unat b div 16), digit_char (unat b mod 16)]"

text \<open>\<open>snprintf(buf, n, ...)\<close> keeps the first \<open>n - 1\<close> bytes of the formatted text.\<close>

definition snprintf :: "nat \<Rightarrow> string \<Rightarrow> string" where
  "snprintf n s = take (n - 1) s"

definition nl :: string where
  "nl = [CHR 0x0A]"

text \<open>C's integer division and remainder truncate towards zero.\<close>

definition c_div :: "int \<Rightarrow> int \<Rightarrow> int" where
  "c_div a b = sgn a * sgn b * (\<bar>a\<bar> div \<bar>b\<bar>)"

definition c_rem :: "int \<Rightarrow> int \<Rightarrow> int" where
  "c_rem a b = a - b * c_div a b"

text \<open>A value converted to \<open>int\<close> (32 bits, two's complement).\<close>

definition to_int32 :: "int \<Rightarrow> int" where
  "to_int32 i = sint (word_of_int i :: 32 word)"

subsection \<open>SHA-256 (OpenSSL's \<open>SHA256_Init\<close>, \<open>SHA256_Update\<close>, \<open>SHA256_Final\<close>)\<close>

type_synonym byte = "8 word"
type_synonym w32 = "32 word"
type_synonym sha_state = "w32 \<times> w32 \<times> w32 \<times> w32 \<times> w32 \<times> w32 \<times> w32 \<times> w32"

text \<open>
  The constants of FIPS 180-4 by their definition: the round constants are the
  first 32 bits of the fractional parts of the cube roots of the first 64 primes,
  the initial hash value those of the square roots of the first 8 primes.
\<close>

definition is_prime :: "nat \<Rightarrow> bool" where
  "is_prime n = (2 \<le> n \<and> list_all (\<lambda>d. n mod d \<noteq> 0) [2..<n])"

definition first_primes :: "nat \<Rightarrow> nat list" where
  "first_primes k = take k (filter is_prime [2..<312])"

text \<open>The largest \<open>r\<close> in \<open>[lo, hi)\<close> with \<open>r ^ k \<le> n\<close>, by bisection.\<close>

function root_between :: "nat \<Rightarrow> nat \<Rightarrow> nat \<Rightarrow> nat \<Rightarrow> nat" where
  "root_between k n lo hi =
     (if hi \<le> lo + 1 then lo
      else if ((lo + hi) div 2) ^ k \<le> n then root_between k n ((lo + hi) div 2) hi
      else root_between k n lo ((lo + hi) div 2))"
  by pat_completeness auto
termination
  by (relation "measure (\<lambda>(k, n, lo, hi). hi - lo)") auto

declare root_between.simps [simp del]

definition floor_root :: "nat \<Rightarrow> nat \<Rightarrow> nat" where
  "floor_root k n = root_between k n 0 (n + 1)"

definition frac_bits :: "nat \<Rightarrow> nat \<Rightarrow> w32" where
  "frac_bits k p = of_nat (floor_root k (p * 2 ^ (32 * k)))"

definition sha_K :: "w32 list" where
  "sha_K = map (frac_bits 3) (first_primes 64)"

definition sha_H0 :: sha_state where
  "sha_H0 =
     (let h = (\<lambda>i. frac_bits 2 (first_primes 8 ! i))
      in (h 0, h 1, h 2, h 3, h 4, h 5, h 6, h 7))"

definition sha_ch :: "w32 \<Rightarrow> w32 \<Rightarrow> w32 \<Rightarrow> w32" where
  "sha_ch x y z = (x AND y) XOR (NOT x AND z)"

definition sha_maj :: "w32 \<Rightarrow> w32 \<Rightarrow> w32 \<Rightarrow> w32" where
  "sha_maj x y z = (x AND y) XOR (x AND z) XOR (y AND z)"

definition sha_bsig0 :: "w32 \<Rightarrow> w32" where
  "sha_bsig0 x = word_rotr 2 x XOR word_rotr 13 x XOR word_rotr 22 x"

definition sha_bsig1 :: "w32 \<Rightarrow> w32" where
  "sha_bsig1 x = word_rotr 6 x XOR word_rotr 11 x XOR word_rotr 25 x"

definition sha_ssig0 :: "w32 \<Rightarrow> w32" where
  "sha_ssig0 x = word_rotr 7 x XOR word_rotr 18 x XOR drop_bit 3 x"

definition sha_ssig1 :: "w32 \<Rightarrow> w32" where
  "sha_ssig1 x = word_rotr 17 x XOR word_rotr 19 x XOR drop_bit 10 x"

text \<open>Big-endian packing of bytes into words and back.\<close>

fun be_words :: "byte list \<Rightarrow> w32 list" where
  "be_words (a # b # c # d # r) =
     (push_bit 24 (ucast a) OR push_bit 16 (ucast b) OR push_bit 8 (ucast c) OR ucast d)
     # be_words r"
| "be_words _ = []"

definition be_bytes :: "w32 \<Rightarrow> byte list" where
  "be_bytes x = [ucast (drop_bit 24 x), ucast (drop_bit 16 x), ucast (drop_bit 8 x), ucast x]"

definition be64_bytes :: "64 word \<Rightarrow> byte list" where
  "be64_bytes x = map (\<lambda>i. ucast (drop_bit (8 * (7 - i)) x)) [0..<8]"

text \<open>The message schedule: 16 words of the block, extended to 64.\<close>

definition sha_sched_step :: "w32 list \<Rightarrow> w32 list" where
  "sha_sched_step ws =
     (let n = length ws
      in ws @ [sha_ssig1 (ws ! (n - 2)) + ws ! (n - 7) + sha_ssig0 (ws ! (n - 15)) + ws ! (n - 16)])"

definition sha_schedule :: "byte list \<Rightarrow> w32 list" where
  "sha_schedule blk = (sha_sched_step ^^ 48) (be_words blk)"

fun sha_round :: "sha_state \<Rightarrow> w32 \<times> w32 \<Rightarrow> sha_state" where
  "sha_round (a, b, c, d, e, f, g, h) (k, w) =
     (let t1 = h + sha_bsig1 e + sha_ch e f g + k + w;
          t2 = sha_bsig0 a + sha_maj a b c
      in (t1 + t2, a, b, c, d + t1, e, f, g))"

fun sha_add :: "sha_state \<Rightarrow> sha_state \<Rightarrow> sha_state" where
  "sha_add (a, b, c, d, e, f, g, h) (a', b', c', d', e', f', g', h') =
     (a + a', b + b', c + c', d + d', e + e', f + f', g + g', h + h')"

definition sha_block :: "sha_state \<Rightarrow> byte list \<Rightarrow> sha_state" where
  "sha_block H blk = sha_add H (foldl sha_round H (zip sha_K (sha_schedule blk)))"

definition sha_pad :: "byte list \<Rightarrow> byte list" where
  "sha_pad m =
     m @ [0x80] @ replicate ((64 - (length m + 9) mod 64) mod 64) 0
       @ be64_bytes (of_nat (8 * length m))"

function sha_blocks :: "sha_state \<Rightarrow> byte list \<Rightarrow> sha_state" where
  "sha_blocks H bs = (if length bs < 64 then H else sha_blocks (sha_block H (take 64 bs)) (drop 64 bs))"
  by pat_completeness auto
termination
  by (relation "measure (\<lambda>(H, bs). length bs)") auto

declare sha_blocks.simps [simp del]

fun sha_digest :: "sha_state \<Rightarrow> byte list" where
  "sha_digest (a, b, c, d, e, f, g, h) =
     be_bytes a @ be_bytes b @ be_bytes c @ be_bytes d @
     be_bytes e @ be_bytes f @ be_bytes g @ be_bytes h"

text \<open>
  The context \<open>SHA256_CTX\<close> is the message fed so far: \<open>SHA256_Update\<close> appends,
  \<open>SHA256_Final\<close> pads, compresses and writes the 32 bytes of the digest.
\<close>

type_synonym SHA256_CTX = "byte list"

definition SHA256_Init :: SHA256_CTX where
  "SHA256_Init = []"

definition SHA256_Update :: "SHA256_CTX \<Rightarrow> string \<Rightarrow> SHA256_CTX" where
  "SHA256_Update sha data = sha @ map of_char data"

definition SHA256_Final :: "SHA256_CTX \<Rightarrow> byte list" where
  "SHA256_Final sha = sha_digest (sha_blocks sha_H0 (sha_pad sha))"

definition SHA256_DIGEST_LENGTH :: nat where
  "SHA256_DIGEST_LENGTH = 32"

subsection \<open>The machine the functions run on\<close>

record timespec =
  tv_sec :: "64 word"
  tv_nsec :: "64 word"

text \<open>The fields of \<open>struct tm\<close> that the format of \<open>get_current_time_long\<close> reads.\<close>

record tm =
  tm_sec :: nat
  tm_min :: nat
  tm_hour :: nat
  tm_mday :: nat
  tm_mon :: nat
  tm_year :: int

text \<open>The fields of \<open>struct sender_t\<close> (load_conf.h) that this file reads.\<close>

record sender_t =
  outdir :: string
  maxcrashdirs :: string

text \<open>
  \<open>files\<close>: the regular files, by path, with their bytes. \<open>dirs\<close>: the directories.
  \<open>denied\<close>: the paths on which every storage operation fails (permissions, a
  read-only or full device). \<open>allocs\<close>: the outcomes of the coming allocation requests
  (\<open>malloc\<close>, \<open>asprintf\<close>), in order, \<open>False\<close> for out of memory; past the end of the
  list every request succeeds. \<open>boottime\<close>: what \<open>clock_gettime(CLOCK_BOOTTIME)\<close>
  stores, \<open>None\<close> when it returns -1. \<open>localtime_now\<close>: what \<open>localtime\<close> returns for
  the current time, \<open>None\<close> for NULL. \<open>senders\<close>: the configured senders by name.
  \<open>gbuildversion\<close>, \<open>guuid\<close>: the process-wide build version and device id.
  \<open>VERSION_SIZE\<close>, \<open>UPTIME_SIZE\<close>, \<open>LONG_TIME_SIZE\<close>: buffer sizes that the headers
  define (the headers are not part of the source file); they are parameters here.
\<close>

record world =
  files :: "string \<rightharpoonup> string"
  dirs :: "string set"
  denied :: "string set"
  allocs :: "bool list"
  boottime :: "timespec option"
  localtime_now :: "tm option"
  senders :: "string \<rightharpoonup> sender_t"
  gbuildversion :: string
  guuid :: string
  VERSION_SIZE :: nat
  UPTIME_SIZE :: nat
  LONG_TIME_SIZE :: nat

datatype error =
    NullArgument | InvalidKeyType | InvalidKeyLength | OutOfMemory
  | ClockFailed | NoSender | InvalidMode | BufferOverrun
  | FileError | SlotCountZero | MkdirFailed

text \<open>One allocation request: \<open>True\<close> when it succeeds.\<close>

definition alloc :: "world \<Rightarrow> bool \<times> world" where
  "alloc w = (case allocs w of [] \<Rightarrow> (True, w) | b # bs \<Rightarrow> (b, w\<lparr>allocs := bs\<rparr>))"

subsection \<open>Uptime and wall-clock time\<close>

text \<open>
  \<open>get_uptime\<close> returns \<open>unsigned long long\<close>: the \<open>int\<close> -1 of a failed
  \<open>clock_gettime\<close> converts to the word of all ones; otherwise seconds and nanoseconds
  are combined in \<open>long long\<close> arithmetic (a sum beyond 63 bits, which no boot-time
  clock reaches, wraps here).
\<close>

definition get_uptime :: "world \<Rightarrow> 64 word" where
  "get_uptime w =
     (case boottime w of
        None \<Rightarrow> - 1
      | Some ts \<Rightarrow> tv_sec ts * 1000000000 + tv_nsec ts)"

text \<open>
  \<open>get_uptime_string\<close>: \<open>Inl ClockFailed\<close> is the return value -1, with the buffer
  and \<open>*hours\<close> untouched; otherwise the result of \<open>snprintf\<close> (the length of the
  untruncated text), the buffer and \<open>*hours\<close>.
\<close>

definition get_uptime_string :: "world \<Rightarrow> error + (int \<times> string \<times> int)" where
  "get_uptime_string w =
     (let tm = sint (get_uptime w)
      in if tm = - 1 then Inl ClockFailed
         else
           let hours0 = to_int32 (c_div tm 1000000000);
               seconds = c_rem hours0 60;
               hours1 = c_div hours0 60;
               minutes = c_rem hours1 60;
               hours2 = c_div hours1 60;
               text = fmt_0d 4 hours2 @ '':'' @ fmt_0d 2 minutes @ '':'' @ fmt_0d 2 seconds
           in Inr (int (length text), snprintf (UPTIME_SIZE w) text, hours2))"

text \<open>
  \<open>strftime\<close> with the format \<^verbatim>\<open>"%Y-%m-%d/%H:%M:%S  "\<close>: the year as a decimal number,
  the other fields on two digits.
\<close>

definition strftime_long :: "tm \<Rightarrow> string" where
  "strftime_long t =
     fmt_d (tm_year t + 1900) @ ''-'' @ fmt_0d 2 (int (tm_mon t) + 1) @ ''-'' @
     fmt_0d 2 (int (tm_mday t)) @ ''/'' @ fmt_0d 2 (int (tm_hour t)) @ '':'' @
     fmt_0d 2 (int (tm_min t)) @ '':'' @ fmt_0d 2 (int (tm_sec t)) @ ''  ''"

text \<open>
  \<open>get_current_time_long\<close>: the return value and the buffer. -1 when \<open>localtime\<close>
  fails; \<open>strftime\<close> returns 0 when the text and its NUL do not fit in
  \<open>LONG_TIME_SIZE\<close> bytes (the buffer is then indeterminate; the only caller
  returns without reading it), and the number of bytes written otherwise.
\<close>

definition get_current_time_long :: "world \<Rightarrow> int \<times> string" where
  "get_current_time_long w =
     (case localtime_now w of
        None \<Rightarrow> (- 1, [])
      | Some time_val \<Rightarrow>
          (let text = strftime_long time_val
           in if length text < LONG_TIME_SIZE w then (int (length text), text) else (0, [])))"

subsection \<open>Event ids\<close>

datatype key_type = KEY_SHORT | KEY_LONG | KEY_OTHER int

text \<open>
  Modelled from the spec: \<open>SHORT_KEY_LENGTH\<close> is defined in probeutils.h, which is
  not part of the source file; the spec (and the comment above
  \<open>generate_event_id\<close>) give 20 characters for a short key.
\<close>

definition SHORT_KEY_LENGTH :: nat where
  "SHORT_KEY_LENGTH = 20"

text \<open>
  Modelled from the spec: \<open>LONG_KEY_LENGTH\<close> is defined in probeutils.h as well; the
  spec (and the same comment) give 32 characters for a long key.
\<close>

definition LONG_KEY_LENGTH :: nat where
  "LONG_KEY_LENGTH = 32"

text \<open>The loop of \<open>compute_key\<close>: two hexadecimal digits for each of the first \<open>key_len / 2\<close> bytes.\<close>

function key_loop :: "nat \<Rightarrow> nat \<Rightarrow> byte list \<Rightarrow> string \<Rightarrow> string" where
  "key_loop i key_len results tmp_key =
     (if i < key_len div 2
      then key_loop (Suc i) key_len results (tmp_key @ fmt_02x (results ! i))
      else tmp_key)"
  by pat_completeness auto
termination
  by (relation "measure (\<lambda>(i, key_len, results, tmp_key). key_len div 2 - i)") auto

declare key_loop.simps [simp del]

text \<open>
  \<open>compute_key\<close>: \<open>key\<close> is the output buffer (\<open>None\<close> for a NULL pointer), the result
  is its new contents; \<open>Inl\<close> is the return value -1. The time is used as
  \<open>get_uptime\<close> returned it, without a check.
\<close>

definition compute_key :: "world \<Rightarrow> string option \<Rightarrow> nat \<Rightarrow> string option \<Rightarrow> error + string" where
  "compute_key w key key_len seed =
     (case (key, seed) of
        (Some _, Some seed') \<Rightarrow>
          if key_len > SHA256_DIGEST_LENGTH * 2 \<or> key_len = 0 then Inl InvalidKeyLength
          else
            let sha = SHA256_Init;
                time_ns = get_uptime w;
                buf = snprintf (VERSION_SIZE w)
                        (gbuildversion w @ guuid w @ fmt_d (sint time_ns));
                sha = SHA256_Update sha buf;
                sha = SHA256_Update sha seed';
                results = SHA256_Final sha
            in Inr (key_loop 0 key_len results [])
      | _ \<Rightarrow> Inl NullArgument)"

text \<open>
  \<open>generate_event_id\<close>: \<open>Inl\<close> is the return value NULL (the constructor names the
  branch), \<open>Inr\<close> the key. The world changes by the allocation requests made.
\<close>

definition generate_event_id ::
  "world \<Rightarrow> string option \<Rightarrow> string option \<Rightarrow> key_type \<Rightarrow> (error + string) \<times> world" where
  "generate_event_id w seed1 seed2 type =
     (case seed1 of
        None \<Rightarrow> (Inl NullArgument, w)
      | Some s1 \<Rightarrow>
          (case (case type of KEY_SHORT \<Rightarrow> Some SHORT_KEY_LENGTH
                            | KEY_LONG \<Rightarrow> Some LONG_KEY_LENGTH
                            | KEY_OTHER _ \<Rightarrow> None) of
             None \<Rightarrow> (Inl InvalidKeyType, w)
           | Some klen \<Rightarrow>
               (case alloc w of
                  (False, w1) \<Rightarrow> (Inl OutOfMemory, w1)
                | (True, w1) \<Rightarrow>
                    (case seed2 of
                       Some s2 \<Rightarrow>
                         (case alloc w1 of
                            (False, w2) \<Rightarrow> (Inl OutOfMemory, w2)
                          | (True, w2) \<Rightarrow> (compute_key w2 (Some []) klen (Some (s1 @ s2)), w2))
                     | None \<Rightarrow> (compute_key w1 (Some []) klen (Some s1), w1)))))"

subsection \<open>Library and collaborator functions\<close>

definition isspace :: "char \<Rightarrow> bool" where
  "isspace c = (c \<in> set [CHR 0x20, CHR 0x09, CHR 0x0A, CHR 0x0B, CHR 0x0C, CHR 0x0D])"

definition isdigit :: "char \<Rightarrow> bool" where
  "isdigit c = (c \<in> set ''0123456789'')"

definition digits_val :: "string \<Rightarrow> nat" where
  "digits_val ds = foldl (\<lambda>a c. 10 * a + (of_char c - 48)) 0 ds"

text \<open>
  \<open>atoi\<close> as glibc has it: \<open>(int) strtol(s, NULL, 10)\<close>. White space is skipped, a sign
  is read, then the leading digits; the value is clamped to the range of \<open>long\<close> and
  converted to 32 bits. The result is given as the 32-bit pattern, which is also the
  value of the \<open>unsigned int\<close> it is assigned to.
\<close>

definition atoi :: "string \<Rightarrow> 32 word" where
  "atoi s =
     (let s1 = dropWhile isspace s;
          neg = (case s1 of c # _ \<Rightarrow> c = CHR ''-'' | [] \<Rightarrow> False);
          s2 = (case s1 of c # r \<Rightarrow> if c = CHR ''-'' \<or> c = CHR ''+'' then r else s1 | [] \<Rightarrow> s1);
          v = int (digits_val (takeWhile isdigit s2));
          l = (if neg then max (- v) (- (2 ^ 63)) else min v (2 ^ 63 - 1))
      in word_of_int l)"

text \<open>A buffer of raw bytes read as a C string: the bytes before the first NUL.\<close>

definition c_str :: "string \<Rightarrow> string" where
  "c_str bs = takeWhile (\<lambda>c. c \<noteq> CHR 0x00) bs"

text \<open>
  Modelled from the spec: \<open>get_sender_by_name\<close> (load_conf.c) is not part of the
  source file. The spec has the sender registry as an external collaborator that
  yields the category's output directory and slot count, or nothing when the sender
  is not configured.
\<close>

definition get_sender_by_name :: "world \<Rightarrow> string \<Rightarrow> sender_t option" where
  "get_sender_by_name w name = senders w name"

text \<open>
  Modelled from the spec: the format of the counter file, which \<open>file_read_int\<close>
  (fsutils.c, not part of the source file) reads. The spec: a plain ASCII decimal
  integer, no newline required. The number is the leading run of digits; a text
  with no leading digit, or whose number does not fit the 32-bit counter, is
  malformed (\<open>None\<close>).
\<close>

definition parse_counter :: "string \<Rightarrow> 32 word option" where
  "parse_counter s =
     (let ds = takeWhile isdigit s
      in if ds = [] \<or> 2 ^ 32 \<le> digits_val ds then None
         else Some (of_nat (digits_val ds)))"

text \<open>
  Modelled from the spec: \<open>file_read_int\<close> (fsutils.c) is not part of the source
  file. The spec: a counter file that does not exist or is malformed gives the
  index 0; the operation fails when the file cannot be read.
\<close>

definition file_read_int :: "world \<Rightarrow> string \<Rightarrow> error + 32 word" where
  "file_read_int w filename =
     (if filename \<in> denied w then Inl FileError
      else case files w filename of
             None \<Rightarrow> Inr 0
           | Some s \<Rightarrow>
               (case parse_counter s of
                  None \<Rightarrow> Inr 0
                | Some current \<Rightarrow> Inr current))"

text \<open>
  Modelled from the spec: \<open>file_update_int\<close> (fsutils.c) is not part of the source
  file. The spec: \<open>next = (current + 1) mod maxSlots\<close> is persisted to the counter
  file as a decimal integer; the operation fails when the file cannot be updated.
  For \<open>maxSlots = 0\<close> the spec gives no value (an unconfigured slot count is a
  configuration error); the model fails there.
\<close>

definition file_update_int :: "world \<Rightarrow> string \<Rightarrow> 32 word \<Rightarrow> 32 word \<Rightarrow> error + world" where
  "file_update_int w filename current max_slots =
     (if filename \<in> denied w then Inl FileError
      else if max_slots = 0 then Inl SlotCountZero
      else Inr (w\<lparr>files := (files w)(filename \<mapsto>
                  dec_nat ((unat current + 1) mod unat max_slots))\<rparr>))"

text \<open>
  Modelled from the spec: \<open>read_file\<close> (fsutils.c) is not part of the source file.
  The spec: a file is read whole, as raw bytes, and the read fails when the file
  does not exist or is unreadable. The result is the size and the bytes.
\<close>

definition read_file :: "world \<Rightarrow> string \<Rightarrow> error + (nat \<times> string)" where
  "read_file w path =
     (if path \<in> denied w then Inl FileError
      else case files w path of
             None \<Rightarrow> Inl FileError
           | Some bs \<Rightarrow> Inr (length bs, bs))"

text \<open>
  Modelled from the spec: \<open>file_exists\<close> (fsutils.c) is not part of the source file.
  The spec: whether the persisted file exists.
\<close>

definition file_exists :: "world \<Rightarrow> string \<Rightarrow> bool" where
  "file_exists w path = (files w path \<noteq> None)"

text \<open>
  Modelled from the spec: \<open>overwrite_file\<close> (fsutils.c) is not part of the source
  file. The spec: the target file is replaced in full in one operation, or the
  write fails at the storage layer and leaves what was there.
\<close>

definition overwrite_file :: "world \<Rightarrow> string \<Rightarrow> string \<Rightarrow> error + world" where
  "overwrite_file w path val =
     (if path \<in> denied w then Inl FileError
      else Inr (w\<lparr>files := (files w)(path \<mapsto> val)\<rparr>))"

text \<open>
  \<open>mkdir\<close>: fails when something exists at the path or the path is denied, and
  creates the directory otherwise.
\<close>

definition mkdir :: "world \<Rightarrow> string \<Rightarrow> error + world" where
  "mkdir w path =
     (if path \<in> denied w \<or> path \<in> dirs w \<or> files w path \<noteq> None then Inl MkdirFailed
      else Inr (w\<lparr>dirs := insert path (dirs w)\<rparr>))"

subsection \<open>Reserving a log directory\<close>

datatype e_dir_mode = MODE_CRASH | MODE_STATS | MODE_VMEVENT | MODE_OTHER int

definition CRASH_CURRENT_LOG :: string where
  "CRASH_CURRENT_LOG = ''currentcrashlog''"

definition STATS_CURRENT_LOG :: string where
  "STATS_CURRENT_LOG = ''currentstatslog''"

definition VM_CURRENT_LOG :: string where
  "VM_CURRENT_LOG = ''currentvmlog''"

definition PATH_MAX :: nat where
  "PATH_MAX = 4096"

text \<open>The \<open>switch\<close> of \<open>reserve_log_folder\<close>: the counter file and the prefix of the directory.\<close>

definition mode_paths :: "string \<Rightarrow> e_dir_mode \<Rightarrow> (string \<times> string) option" where
  "mode_paths out mode =
     (case mode of
        MODE_CRASH \<Rightarrow> Some (out @ ''/'' @ CRASH_CURRENT_LOG, out @ ''/'' @ ''crashlog'')
      | MODE_STATS \<Rightarrow> Some (out @ ''/'' @ STATS_CURRENT_LOG, out @ ''/'' @ ''stats'')
      | MODE_VMEVENT \<Rightarrow> Some (out @ ''/'' @ VM_CURRENT_LOG, out @ ''/'' @ ''vmevent'')
      | MODE_OTHER _ \<Rightarrow> None)"

text \<open>
  \<open>reserve_log_folder\<close>: \<open>Inl\<close> is a negative return value; \<open>Inr\<close> carries the two
  out-parameters \<open>dir\<close> and \<open>*current\<close> and the world after the counter update.
  \<open>sprintf\<close> into \<open>path[512]\<close> or \<open>dir[PATH_MAX]\<close> with a text that does not fit is
  undefined in C; the model ends the call with \<open>BufferOverrun\<close>.
\<close>

definition reserve_log_folder ::
  "world \<Rightarrow> e_dir_mode \<Rightarrow> error + ((string \<times> 32 word) \<times> world)" where
  "reserve_log_folder w mode =
     (case get_sender_by_name w ''crashlog'' of
        None \<Rightarrow> Inl NoSender
      | Some crashlog \<Rightarrow>
          (case mode_paths (outdir crashlog) mode of
             None \<Rightarrow> Inl InvalidMode
           | Some (path, dir) \<Rightarrow>
               if 512 \<le> length path \<or> PATH_MAX \<le> length dir then Inl BufferOverrun
               else
                 (case file_read_int w path of
                    Inl e \<Rightarrow> Inl e
                  | Inr current \<Rightarrow>
                      (let maxdirs = atoi (maxcrashdirs crashlog)
                       in case file_update_int w path current maxdirs of
                            Inl e \<Rightarrow> Inl e
                          | Inr w' \<Rightarrow> Inr ((dir, current), w')))))"

text \<open>
  \<open>generate_log_dir\<close>: \<open>Inl\<close> is the return value NULL, \<open>Inr\<close> the path created.
  \<^verbatim>\<open>%d\<close> prints the \<open>unsigned int\<close> counter as a signed number. What
  \<open>hist_raise_infoerror\<close> does on the failure branches is outside this model, so a
  failure carries no world.
\<close>

definition generate_log_dir :: "world \<Rightarrow> e_dir_mode \<Rightarrow> string \<Rightarrow> error + (string \<times> world)" where
  "generate_log_dir w mode hashkey =
     (case reserve_log_folder w mode of
        Inl e \<Rightarrow> Inl e
      | Inr ((dir, current), w1) \<Rightarrow>
          (case alloc w1 of
             (False, w2) \<Rightarrow> Inl OutOfMemory
           | (True, w2) \<Rightarrow>
               (let path = dir @ fmt_d (sint current) @ ''_'' @ hashkey
                in case mkdir w2 path of
                     Inl e \<Rightarrow> Inl e
                   | Inr w3 \<Rightarrow> Inr (path, w3))))"

subsection \<open>Writing the crash file\<close>

text \<open>
  The macro \<open>strcat_fmt\<close>: the text is formatted into a buffer of 1024 bytes with
  \<open>snprintf\<close> and what fits is appended.
\<close>

definition strcat_fmt :: "string \<Rightarrow> string \<Rightarrow> string" where
  "strcat_fmt buf formatted = buf @ snprintf 1024 formatted"

text \<open>The text that \<open>generate_crashfile\<close> builds in \<open>buf\<close>.\<close>

definition crashfile_buf ::
  "world \<Rightarrow> string \<Rightarrow> string \<Rightarrow> string \<Rightarrow> string \<Rightarrow> string \<Rightarrow>
   string option \<Rightarrow> string option \<Rightarrow> string option \<Rightarrow> string" where
  "crashfile_buf w event hashkey datetime uptime type data0 data1 data2 =
     (let buf = [];
          buf = strcat_fmt buf (''EVENT='' @ event @ nl);
          buf = strcat_fmt buf (''ID='' @ hashkey @ nl);
          buf = strcat_fmt buf (''DEVICEID='' @ guuid w @ nl);
          buf = strcat_fmt buf (''DATE='' @ datetime @ nl);
          buf = strcat_fmt buf (''UPTIME='' @ uptime @ nl);
          buf = strcat_fmt buf (''BUILD='' @ gbuildversion w @ nl);
          buf = strcat_fmt buf (''TYPE='' @ type @ nl);
          buf = (case data0 of Some d \<Rightarrow> strcat_fmt buf (''DATA0='' @ d @ nl) | None \<Rightarrow> buf);
          buf = (case data1 of Some d \<Rightarrow> strcat_fmt buf (''DATA1='' @ d @ nl) | None \<Rightarrow> buf);
          buf = (case data2 of Some d \<Rightarrow> strcat_fmt buf (''DATA2='' @ d @ nl) | None \<Rightarrow> buf)
      in buf @ ''_END'' @ nl)"

text \<open>
  \<open>generate_crashfile\<close> returns nothing: the result is the world it leaves. The
  return value of \<open>get_uptime_string\<close> is not read; \<open>uptime\<close> was set to the empty
  string before the call. The buffer of \<open>filesize\<close> bytes holds the text: the fixed
  parts take at most 75 of the 128 bytes of \<open>fmtsize\<close>.
\<close>

definition generate_crashfile ::
  "world \<Rightarrow> string \<Rightarrow> string \<Rightarrow> string \<Rightarrow> string \<Rightarrow>
   string option \<Rightarrow> string option \<Rightarrow> string option \<Rightarrow> world" where
  "generate_crashfile w dir event hashkey type data0 data1 data2 =
     (case get_current_time_long w of
        (ret, datetime) \<Rightarrow>
          if ret \<le> 0 then w
          else
            (let uptime = (case get_uptime_string w of
                             Inl _ \<Rightarrow> []
                           | Inr (_, newuptime, _) \<Rightarrow> newuptime)
             in case alloc w of
                  (False, w1) \<Rightarrow> w1
                | (True, w1) \<Rightarrow>
                    (let buf = crashfile_buf w1 event hashkey datetime uptime type
                                 data0 data1 data2
                     in case alloc w1 of
                          (False, w2) \<Rightarrow> w2
                        | (True, w2) \<Rightarrow>
                            (case overwrite_file w2 (dir @ ''/'' @ ''crashfile'') buf of
                               Inl _ \<Rightarrow> w2
                             | Inr w3 \<Rightarrow> w3))))"

subsection \<open>The boot id\<close>

definition BOOTID_NODE :: string where
  "BOOTID_NODE = ''/proc/sys/kernel/random/boot_id''"

definition BOOTID_LOG :: string where
  "BOOTID_LOG = ''currentbootid''"

text \<open>
  \<open>is_boot_id_changed\<close>: the return value (1 changed, 0 unchanged) and the world it
  leaves. The return value of the final \<open>overwrite_file\<close> is not read. \<open>size1\<close> and
  \<open>size2\<close> are the two values stored in \<open>size\<close>.
\<close>

definition is_boot_id_changed :: "world \<Rightarrow> int \<times> world" where
  "is_boot_id_changed w =
     (case get_sender_by_name w ''crashlog'' of
        None \<Rightarrow> (1, w)
      | Some crashlog \<Rightarrow>
          (case read_file w BOOTID_NODE of
             Inl _ \<Rightarrow> (1, w)
           | Inr (size1, boot_id) \<Rightarrow>
               if size1 = 0 then (1, w)
               else
                 (let logged_boot_id_path =
                        snprintf PATH_MAX (outdir crashlog @ ''/'' @ BOOTID_LOG);
                      persist = (case overwrite_file w logged_boot_id_path (c_str boot_id) of
                                   Inl _ \<Rightarrow> w
                                 | Inr w' \<Rightarrow> w')
                  in if file_exists w logged_boot_id_path
                     then
                       (case read_file w logged_boot_id_path of
                          Inl _ \<Rightarrow> (1, w)
                        | Inr (size2, logged_boot_id) \<Rightarrow>
                            if size2 = 0 then (1, w)
                            else if c_str logged_boot_id = c_str boot_id then (0, w)
                            else (1, persist))
                     else (1, persist))))"

subsection \<open>Definitions for stating the properties\<close>

definition hex_digits :: "char set" where
  "hex_digits = set ''0123456789abcdef''"

text \<open>\<open>n\<close> reservations one after the other; the indices they return, in order.\<close>

fun reserve_seq :: "nat \<Rightarrow> world \<Rightarrow> e_dir_mode \<Rightarrow> error + (32 word list \<times> world)" where
  "reserve_seq 0 w mode = Inr ([], w)"
| "reserve_seq (Suc n) w mode =
     (case reserve_log_folder w mode of
        Inl e \<Rightarrow> Inl e
      | Inr ((dir, current), w') \<Rightarrow>
          (case reserve_seq n w' mode of
             Inl e \<Rightarrow> Inl e
           | Inr (cs, w'') \<Rightarrow> Inr (current # cs, w'')))"

text \<open>
  The crash report as the spec words it: the seven lines in their order, a
  \<open>DATAn\<close> line for each value supplied, each line ended by a newline. The
  sentinel line \<open>_END\<close> follows them.
\<close>

definition report_lines ::
  "world \<Rightarrow> string \<Rightarrow> string \<Rightarrow> string \<Rightarrow> string \<Rightarrow> string \<Rightarrow>
   string option \<Rightarrow> string option \<Rightarrow> string option \<Rightarrow> string list" where
  "report_lines w event hashkey datetime uptime type data0 data1 data2 =
     [''EVENT='' @ event @ nl, ''ID='' @ hashkey @ nl, ''DEVICEID='' @ guuid w @ nl,
      ''DATE='' @ datetime @ nl, ''UPTIME='' @ uptime @ nl,
      ''BUILD='' @ gbuildversion w @ nl, ''TYPE='' @ type @ nl] @
     (case data0 of Some d \<Rightarrow> [''DATA0='' @ d @ nl] | None \<Rightarrow> []) @
     (case data1 of Some d \<Rightarrow> [''DATA1='' @ d @ nl] | None \<Rightarrow> []) @
     (case data2 of Some d \<Rightarrow> [''DATA2='' @ d @ nl] | None \<Rightarrow> [])"

text \<open>
  A machine to run the functions on: the sender crashlog writes under
  /var/log/crashlog with three slots, the boot id node reads boot-A, the uptime
  is 1 h 2 min 5 s, no file of the probe exists yet.
\<close>

definition example_world :: world where
  "example_world =
     \<lparr>files = [BOOTID_NODE \<mapsto> ''boot-A''], dirs = {}, denied = {}, allocs = [],
      boottime = Some \<lparr>tv_sec = 3725, tv_nsec = 5\<rparr>,
      localtime_now = Some \<lparr>tm_sec = 7, tm_min = 8, tm_hour = 9, tm_mday = 30,
                             tm_mon = 9, tm_year = 126\<rparr>,
      senders = [''crashlog'' \<mapsto> \<lparr>outdir = ''/var/log/crashlog'', maxcrashdirs = ''3''\<rparr>],
      gbuildversion = ''v1'', guuid = ''uuid0'',
      VERSION_SIZE = 256, UPTIME_SIZE = 24, LONG_TIME_SIZE = 32\<rparr>"

section \<open>Properties\<close>

subsection \<open>Formatting and hashing\<close>

lemma digit_char_hex: "d < 16 \<Longrightarrow> digit_char d \<in> hex_digits"
  unfolding digit_char_def hex_digits_def by (rule nth_mem) simp

lemma fmt_02x_length [simp]: "length (fmt_02x b) = 2"
  by (simp add: fmt_02x_def)

lemma fmt_02x_hex: "set (fmt_02x b) \<subseteq> hex_digits"
proof -
  have "unat b < 256" using unsigned_less [of b] by simp
  then have "unat b div 16 < 16" by simp
  moreover have "unat b mod 16 < 16" by simp
  ultimately show ?thesis
    unfolding fmt_02x_def using digit_char_hex by simp
qed

lemma key_loop_length:
  "length (key_loop i key_len results tmp_key) = length tmp_key + 2 * (key_len div 2 - i)"
proof (induction i key_len results tmp_key rule: key_loop.induct)
  case (1 i key_len results tmp_key)
  show ?case
  proof (cases "i < key_len div 2")
    case True
    with 1 show ?thesis by (subst key_loop.simps) simp
  next
    case False
    then show ?thesis by (subst key_loop.simps) simp
  qed
qed

lemma key_loop_hex:
  "set tmp_key \<subseteq> hex_digits \<Longrightarrow> set (key_loop i key_len results tmp_key) \<subseteq> hex_digits"
proof (induction i key_len results tmp_key rule: key_loop.induct)
  case (1 i key_len results tmp_key)
  show ?case
  proof (cases "i < key_len div 2")
    case True
    have "set (tmp_key @ fmt_02x (results ! i)) \<subseteq> hex_digits"
      using "1.prems" fmt_02x_hex [of "results ! i"] by simp
    with True "1.IH" show ?thesis by (subst key_loop.simps) simp
  next
    case False
    with "1.prems" show ?thesis by (subst key_loop.simps) simp
  qed
qed

lemma sha_digest_length: "length (sha_digest s) = 32"
  by (cases s rule: sha_digest.cases) (simp add: be_bytes_def)

lemma SHA256_Final_length: "length (SHA256_Final sha) = SHA256_DIGEST_LENGTH"
  by (simp add: SHA256_Final_def SHA256_DIGEST_LENGTH_def sha_digest_length)

subsection \<open>Event ids: the result of \<open>generate_event_id\<close>\<close>

lemma compute_key_ok:
  assumes "0 < key_len" "key_len \<le> 64"
  shows "\<exists>k. compute_key w (Some key) key_len (Some seed) = Inr k \<and>
             length k = 2 * (key_len div 2) \<and> set k \<subseteq> hex_digits"
  using assms key_loop_hex [of "[]"]
  by (simp add: compute_key_def SHA256_DIGEST_LENGTH_def key_loop_length Let_def)

lemma generate_event_id_result:
  assumes len: "(case type of KEY_SHORT \<Rightarrow> Some SHORT_KEY_LENGTH
                  | KEY_LONG \<Rightarrow> Some LONG_KEY_LENGTH | KEY_OTHER x \<Rightarrow> None) = Some klen"
    and pos: "0 < klen" "klen \<le> 64"
  shows "case fst (generate_event_id w (Some seed1) seed2 type) of
           Inr key \<Rightarrow> length key = 2 * (klen div 2) \<and> set key \<subseteq> hex_digits
         | Inl e \<Rightarrow> e = OutOfMemory \<and> False \<in> set (allocs w)"
proof -
  have key: "\<exists>k. compute_key w' (Some []) klen (Some s) = Inr k \<and>
      length k = 2 * (klen div 2) \<and> set k \<subseteq> hex_digits" for w' s
    using compute_key_ok [OF pos] .
  show ?thesis
  proof (cases seed2)
    case None
    show ?thesis
    proof (cases "allocs w")
      case Nil
      with None len key [of w seed1] show ?thesis
        by (auto simp: generate_event_id_def alloc_def)
    next
      case (Cons b bs)
      with None len key [of "w\<lparr>allocs := bs\<rparr>" seed1]
      show ?thesis
        by (cases b) (auto simp: generate_event_id_def alloc_def)
    qed
  next
    case (Some s2)
    show ?thesis
    proof (cases "allocs w")
      case Nil
      with Some len key [of w "seed1 @ s2"] show ?thesis
        by (auto simp: generate_event_id_def alloc_def)
    next
      case (Cons b bs)
      note outer = Cons
      show ?thesis
      proof (cases bs)
        case Nil
        with outer Some len key [of "w\<lparr>allocs := []\<rparr>" "seed1 @ s2"]
        show ?thesis
          by (cases b) (auto simp: generate_event_id_def alloc_def)
      next
        case (Cons b' bs')
        with outer Some len key [of "w\<lparr>allocs := bs'\<rparr>" "seed1 @ s2"]
        show ?thesis
          by (cases b; cases b') (auto simp: generate_event_id_def alloc_def)
      qed
    qed
  qed
qed

lemma generate_event_id_short:
  "case fst (generate_event_id w (Some seed1) seed2 KEY_SHORT) of
     Inr key \<Rightarrow> length key = 20 \<and> set key \<subseteq> hex_digits
   | Inl e \<Rightarrow> e = OutOfMemory \<and> False \<in> set (allocs w)"
  using generate_event_id_result [of KEY_SHORT 20 w seed1 seed2]
  by (auto simp: SHORT_KEY_LENGTH_def split: sum.splits)

lemma generate_event_id_long:
  "case fst (generate_event_id w (Some seed1) seed2 KEY_LONG) of
     Inr key \<Rightarrow> length key = 32 \<and> set key \<subseteq> hex_digits
   | Inl e \<Rightarrow> e = OutOfMemory \<and> False \<in> set (allocs w)"
  using generate_event_id_result [of KEY_LONG 32 w seed1 seed2]
  by (auto simp: LONG_KEY_LENGTH_def split: sum.splits)

text \<open>
  C2. For a seed1 that is not NULL and either valid key type, \<open>generate_event_id\<close>
  returns a key of exactly 20 characters (\<open>KEY_SHORT\<close>) or 32 characters
  (\<open>KEY_LONG\<close>), every one of them a digit of \<open>0-9a-f\<close>. The only other outcome
  is NULL after a failed allocation.
\<close>

theorem generate_event_id_key:
  "(case fst (generate_event_id w (Some seed1) seed2 KEY_SHORT) of
      Inr key \<Rightarrow> length key = 20 \<and> set key \<subseteq> hex_digits
    | Inl e \<Rightarrow> e = OutOfMemory \<and> False \<in> set (allocs w)) \<and>
   (case fst (generate_event_id w (Some seed1) seed2 KEY_LONG) of
      Inr key \<Rightarrow> length key = 32 \<and> set key \<subseteq> hex_digits
    | Inl e \<Rightarrow> e = OutOfMemory \<and> False \<in> set (allocs w))"
  using generate_event_id_short generate_event_id_long by (rule conjI)

text \<open>On the example machine both key types give a key.\<close>

theorem generate_event_id_key_witness:
  "(\<exists>key. fst (generate_event_id example_world (Some ''seed'') (Some ''x'') KEY_SHORT) = Inr key \<and>
       length key = 20 \<and> set key \<subseteq> hex_digits) \<and>
   (\<exists>key. fst (generate_event_id example_world (Some ''seed'') (Some ''x'') KEY_LONG) = Inr key \<and>
       length key = 32 \<and> set key \<subseteq> hex_digits)"
  using generate_event_id_key [of example_world "''seed''" "Some ''x''"]
  by (auto simp: example_world_def split: sum.splits)

text \<open>
  C6 as stated would have the empty seed1 refused. On the example machine the
  empty seed1 gives a short key: the hash of the salt followed by no seed bytes.
\<close>

theorem generate_event_id_empty_seed_counterexample:
  "fst (generate_event_id example_world (Some '''') None KEY_SHORT) =
     Inr (key_loop 0 20
            (SHA256_Final (SHA256_Update (SHA256_Update SHA256_Init ''v1uuid03725000000005'') ''''))
            [])"
proof -
  have "get_uptime example_world = 3725000000005"
    by (simp add: get_uptime_def example_world_def)
  then have "fmt_d (sint (get_uptime example_world)) = ''3725000000005''"
    by (simp add: fmt_d_def dec_nat.simps digit_char_def)
  then have "compute_key example_world (Some []) 20 (Some '''') =
     Inr (key_loop 0 20
            (SHA256_Final (SHA256_Update (SHA256_Update SHA256_Init ''v1uuid03725000000005'') ''''))
            [])"
    by (simp add: compute_key_def SHA256_DIGEST_LENGTH_def snprintf_def)
       (simp add: example_world_def)
  moreover have "alloc example_world = (True, example_world)"
    by (simp add: alloc_def example_world_def)
  ultimately show ?thesis
    by (simp add: generate_event_id_def SHORT_KEY_LENGTH_def)
qed

text \<open>
  C6, as the code has it. The check before the key is computed is for a NULL
  seed1 only: NULL gives NULL and leaves the world as it is; the empty string is a
  seed like any other and gives a key of the length of the key type whenever no
  allocation fails.
\<close>

theorem generate_event_id_null_seed:
  "generate_event_id w None seed2 type = (Inl NullArgument, w) \<and>
   (False \<notin> set (allocs w) \<longrightarrow>
      (\<exists>key. fst (generate_event_id w (Some '''') seed2 KEY_SHORT) = Inr key \<and> length key = 20) \<and>
      (\<exists>key. fst (generate_event_id w (Some '''') seed2 KEY_LONG) = Inr key \<and> length key = 32))"
  using generate_event_id_short [of w "''''" seed2] generate_event_id_long [of w "''''" seed2]
  by (auto simp: generate_event_id_def split: sum.splits)

text \<open>On the example machine: NULL is refused, the empty seed gives keys.\<close>

theorem generate_event_id_null_seed_witness:
  "generate_event_id example_world None None KEY_SHORT = (Inl NullArgument, example_world) \<and>
   False \<notin> set (allocs example_world) \<and>
   (\<exists>key. fst (generate_event_id example_world (Some '''') None KEY_SHORT) = Inr key \<and> length key = 20) \<and>
   (\<exists>key. fst (generate_event_id example_world (Some '''') None KEY_LONG) = Inr key \<and> length key = 32)"
  using generate_event_id_null_seed [of example_world None KEY_SHORT]
  by (simp add: example_world_def)

text \<open>
  C7. With \<open>clock_gettime\<close> failing, \<open>get_uptime\<close> returns the word of all ones
  and \<open>compute_key\<close> prints it with \<^verbatim>\<open>%lld\<close> into the salt: the call returns a
  key hashed from the text -1 in place of a timestamp, not an error.
\<close>

theorem generate_event_id_failed_clock:
  "get_uptime (example_world\<lparr>boottime := None\<rparr>) = - 1 \<and>
   fst (generate_event_id (example_world\<lparr>boottime := None\<rparr>) (Some ''seed'') None KEY_SHORT) =
     Inr (key_loop 0 20
            (SHA256_Final (SHA256_Update (SHA256_Update SHA256_Init ''v1uuid0-1'') ''seed''))
            [])"
proof -
  let ?w = "example_world\<lparr>boottime := None\<rparr>"
  have up: "get_uptime ?w = - 1"
    by (simp add: get_uptime_def)
  then have "fmt_d (sint (get_uptime ?w)) = ''-1''"
    by (simp add: fmt_d_def dec_nat.simps digit_char_def)
  then have "compute_key ?w (Some []) 20 (Some ''seed'') =
     Inr (key_loop 0 20
            (SHA256_Final (SHA256_Update (SHA256_Update SHA256_Init ''v1uuid0-1'') ''seed''))
            [])"
    by (simp add: compute_key_def SHA256_DIGEST_LENGTH_def snprintf_def)
       (simp add: example_world_def)
  moreover have "alloc ?w = (True, ?w)"
    by (simp add: alloc_def example_world_def)
  ultimately show ?thesis
    using up by (simp add: generate_event_id_def SHORT_KEY_LENGTH_def)
qed

subsection \<open>The crash file: what \<open>generate_crashfile\<close> writes\<close>

lemma alloc_no_failure:
  "False \<notin> set (allocs w) \<Longrightarrow> alloc w = (True, w\<lparr>allocs := tl (allocs w)\<rparr>)"
  by (cases "allocs w") (auto simp: alloc_def)

lemma no_failure_tl: "False \<notin> set xs \<Longrightarrow> False \<notin> set (tl xs)"
  by (cases xs) auto

lemma crashfile_buf_allocs [simp]:
  "crashfile_buf (w\<lparr>allocs := a\<rparr>) event hashkey datetime uptime type data0 data1 data2 =
   crashfile_buf w event hashkey datetime uptime type data0 data1 data2"
  by (simp add: crashfile_buf_def)

lemma snprintf_fits: "length s < n \<Longrightarrow> snprintf n s = s"
  by (simp add: snprintf_def)

lemma crashfile_buf_lines:
  assumes "\<forall>l \<in> set (report_lines w event hashkey datetime uptime type data0 data1 data2).
             length l \<le> 1023"
  shows "crashfile_buf w event hashkey datetime uptime type data0 data1 data2 =
         concat (report_lines w event hashkey datetime uptime type data0 data1 data2) @ ''_END'' @ nl"
  using assms
  by (cases data0; cases data1; cases data2)
     (simp_all add: crashfile_buf_def report_lines_def strcat_fmt_def snprintf_fits)

lemma generate_crashfile_written:
  assumes time: "get_current_time_long w = (ret, datetime)" "0 < ret"
    and mem: "False \<notin> set (allocs w)"
    and io: "dir @ ''/crashfile'' \<notin> denied w"
  shows "generate_crashfile w dir event hashkey type data0 data1 data2 =
         w\<lparr>allocs := tl (tl (allocs w)),
           files := (files w)(dir @ ''/crashfile'' \<mapsto>
             crashfile_buf w event hashkey datetime
               (case get_uptime_string w of Inl e \<Rightarrow> [] | Inr (n, newuptime, hours) \<Rightarrow> newuptime)
               type data0 data1 data2)\<rparr>"
proof -
  let ?w1 = "w\<lparr>allocs := tl (allocs w)\<rparr>"
  have a1: "alloc w = (True, ?w1)"
    using mem by (rule alloc_no_failure)
  have "False \<notin> set (allocs ?w1)"
    using mem by (simp add: no_failure_tl)
  then have a2: "alloc ?w1 = (True, ?w1\<lparr>allocs := tl (allocs ?w1)\<rparr>)"
    by (rule alloc_no_failure)
  show ?thesis
    using time io by (simp add: generate_crashfile_def a1 a2 overwrite_file_def Let_def)
qed

lemma example_time:
  "get_current_time_long example_world = (21, ''2026-10-30/09:08:07  '')"
  by (simp add: get_current_time_long_def example_world_def strftime_long_def fmt_d_def
      fmt_0d_def dec_nat.simps digit_char_def)

lemma example_uptime:
  "get_uptime_string example_world = Inr (10, ''0001:02:05'', 1)"
proof -
  have "sint (get_uptime example_world) = 3725000000005"
    by (simp add: get_uptime_def example_world_def)
  moreover have "to_int32 (c_div 3725000000005 1000000000) = 3725"
    by (simp add: to_int32_def c_div_def)
  moreover have "c_rem 3725 60 = 5" "c_div 3725 60 = 62" "c_rem 62 60 = 2" "c_div 62 60 = 1"
    by (simp_all add: c_rem_def c_div_def)
  moreover have "fmt_0d 4 1 = ''0001''" "fmt_0d 2 2 = ''02''" "fmt_0d 2 5 = ''05''"
    by (simp_all add: fmt_0d_def dec_nat.simps digit_char_def eval_nat_numeral)
  moreover have "UPTIME_SIZE example_world = 24"
    by (simp add: example_world_def)
  ultimately show ?thesis
    by (simp add: get_uptime_string_def snprintf_def)
qed

text \<open>
  C5. The report is to be the lines EVENT, ID, DEVICEID, DATE, UPTIME, BUILD, TYPE,
  a DATAn line for each value supplied, and \<open>_END\<close>. Every format of
  \<open>generate_crashfile\<close> ends in a newline and \<open>filesize\<close> counts every value in
  full, but \<open>strcat_fmt\<close> formats through a buffer of 1024 bytes: on the example
  machine an event name of 1017 bytes makes the line EVENT 1024 bytes long, 1023
  of them are kept, the newline is lost and ID continues the line of EVENT. The
  file written is not the report.
\<close>

theorem generate_crashfile_long_event:
  "files (generate_crashfile example_world ''/d'' (replicate 1017 CHR ''A'') ''0123'' ''KERNEL''
            None None None) ''/d/crashfile'' =
   Some (''EVENT='' @ replicate 1017 CHR ''A'' @ ''ID=0123'' @ nl @ ''DEVICEID=uuid0'' @ nl @
         ''DATE=2026-10-30/09:08:07  '' @ nl @ ''UPTIME=0001:02:05'' @ nl @
         ''BUILD=v1'' @ nl @ ''TYPE=KERNEL'' @ nl @ ''_END'' @ nl) \<and>
   files (generate_crashfile example_world ''/d'' (replicate 1017 CHR ''A'') ''0123'' ''KERNEL''
            None None None) ''/d/crashfile'' \<noteq>
   Some (concat (report_lines example_world (replicate 1017 CHR ''A'') ''0123''
                   ''2026-10-30/09:08:07  '' ''0001:02:05'' ''KERNEL'' None None None)
         @ ''_END'' @ nl)"
proof -
  have "guuid example_world = ''uuid0''" "gbuildversion example_world = ''v1''"
    "allocs example_world = []" "denied example_world = {}"
    by (simp_all add: example_world_def)
  moreover have "snprintf 1024 (''EVENT='' @ replicate 1017 CHR ''A'' @ nl) =
      ''EVENT='' @ replicate 1017 CHR ''A''"
    by (simp add: snprintf_def nl_def)
  ultimately show ?thesis
    by (simp add: generate_crashfile_written [of example_world 21 "''2026-10-30/09:08:07  ''"]
        example_time example_uptime crashfile_buf_def strcat_fmt_def report_lines_def)
       (simp add: snprintf_def nl_def)
qed

text \<open>
  C9. When the wall-clock timestamp is not obtained (\<open>localtime\<close> fails, or
  \<open>strftime\<close> returns 0), \<open>generate_crashfile\<close> returns at once: the world, with
  every file in it, is as before the call.
\<close>

theorem generate_crashfile_no_time:
  "(localtime_now w = None \<longrightarrow> fst (get_current_time_long w) \<le> 0) \<and>
   (fst (get_current_time_long w) \<le> 0 \<longrightarrow>
      generate_crashfile w dir event hashkey type data0 data1 data2 = w)"
  by (auto simp: generate_crashfile_def get_current_time_long_def split: prod.splits)

text \<open>
  On the example machine with \<open>localtime\<close> failing no crash file appears.
\<close>

theorem generate_crashfile_no_time_witness:
  "localtime_now (example_world\<lparr>localtime_now := None\<rparr>) = None \<and>
   generate_crashfile (example_world\<lparr>localtime_now := None\<rparr>)
     ''/d'' ''CRASH'' ''0123'' ''KERNEL'' None None None = example_world\<lparr>localtime_now := None\<rparr> \<and>
   files (example_world\<lparr>localtime_now := None\<rparr>) ''/d/crashfile'' = None"
  using generate_crashfile_no_time [of "example_world\<lparr>localtime_now := None\<rparr>"
      "''/d''" "''CRASH''" "''0123''" "''KERNEL''" None None None]
  by (simp add: example_world_def BOOTID_NODE_def)

text \<open>
  C10. When the boot-time clock fails, \<open>get_uptime_string\<close> returns -1, which
  \<open>generate_crashfile\<close> does not read: the report is written in full, and its
  UPTIME line is \<open>UPTIME=\<close> followed by the newline.
\<close>

theorem generate_crashfile_no_uptime:
  assumes "boottime w = None"
    and "get_current_time_long w = (ret, datetime)" and "0 < ret"
    and "False \<notin> set (allocs w)"
    and "dir @ ''/crashfile'' \<notin> denied w"
  shows "get_uptime_string w = Inl ClockFailed \<and>
         files (generate_crashfile w dir event hashkey type data0 data1 data2)
           (dir @ ''/crashfile'') =
         Some (snprintf 1024 (''EVENT='' @ event @ nl) @
               snprintf 1024 (''ID='' @ hashkey @ nl) @
               snprintf 1024 (''DEVICEID='' @ guuid w @ nl) @
               snprintf 1024 (''DATE='' @ datetime @ nl) @
               ''UPTIME='' @ nl @
               snprintf 1024 (''BUILD='' @ gbuildversion w @ nl) @
               snprintf 1024 (''TYPE='' @ type @ nl) @
               (case data0 of Some d \<Rightarrow> snprintf 1024 (''DATA0='' @ d @ nl) | None \<Rightarrow> []) @
               (case data1 of Some d \<Rightarrow> snprintf 1024 (''DATA1='' @ d @ nl) | None \<Rightarrow> []) @
               (case data2 of Some d \<Rightarrow> snprintf 1024 (''DATA2='' @ d @ nl) | None \<Rightarrow> []) @
               ''_END'' @ nl)"
proof -
  have up: "get_uptime_string w = Inl ClockFailed"
    using assms(1) by (simp add: get_uptime_string_def get_uptime_def)
  have "snprintf 1024 (''UPTIME='' @ nl) = ''UPTIME='' @ nl"
    by (simp add: snprintf_def nl_def)
  then show ?thesis
    using up generate_crashfile_written [OF assms(2-5)]
    by (cases data0; cases data1; cases data2)
       (simp_all add: crashfile_buf_def strcat_fmt_def)
qed

text \<open>
  On the example machine with the boot-time clock failing.
\<close>

theorem generate_crashfile_no_uptime_witness:
  "files (generate_crashfile (example_world\<lparr>boottime := None\<rparr>) ''/d'' ''CRASH'' ''0123''
            ''KERNEL'' None (Some ''x'') None) ''/d/crashfile'' =
   Some (''EVENT=CRASH'' @ nl @ ''ID=0123'' @ nl @ ''DEVICEID=uuid0'' @ nl @
         ''DATE=2026-10-30/09:08:07  '' @ nl @ ''UPTIME='' @ nl @
         ''BUILD=v1'' @ nl @ ''TYPE=KERNEL'' @ nl @ ''DATA1=x'' @ nl @ ''_END'' @ nl)"
proof -
  let ?w = "example_world\<lparr>boottime := None\<rparr>"
  have "get_current_time_long ?w = (21, ''2026-10-30/09:08:07  '')"
    by (simp add: get_current_time_long_def example_world_def strftime_long_def fmt_d_def
        fmt_0d_def dec_nat.simps digit_char_def)
  moreover have "guuid ?w = ''uuid0''" "gbuildversion ?w = ''v1''"
    "allocs ?w = []" "denied ?w = {}"
    by (simp_all add: example_world_def)
  ultimately show ?thesis
    using generate_crashfile_no_uptime [of ?w 21 "''2026-10-30/09:08:07  ''" "''/d''"
        "''CRASH''" "''0123''" "''KERNEL''" None "Some ''x''" None]
    by (simp add: snprintf_def nl_def)
qed

subsection \<open>The boot id: when \<open>is_boot_id_changed\<close> rewrites the record\<close>

text \<open>
  C8, as the code has it. The result is 1 (changed) or 0 (unchanged); there is no
  third result for a first boot. A result 0 leaves the world, and so the record
  file, as it was. With no sender crashlog, or with the current boot id unreadable
  or empty, the result is 1 and nothing is written. Otherwise the record file is
  overwritten with the current boot id exactly when it can be written and either
  no record exists or the record is not empty and differs from the current id;
  the result is 0 exactly when the record is readable, not empty and equal to the
  current id. So an unreadable or empty record gives 1 and stays as it is.
\<close>

theorem is_boot_id_changed_persist:
  "(fst (is_boot_id_changed w) = 0 \<longrightarrow> snd (is_boot_id_changed w) = w) \<and>
   (senders w ''crashlog'' = None \<or> (\<forall>n b. read_file w BOOTID_NODE = Inr (n, b) \<longrightarrow> n = 0)
      \<longrightarrow> is_boot_id_changed w = (1, w)) \<and>
   (senders w ''crashlog'' = Some crashlog \<and>
    read_file w BOOTID_NODE = Inr (n, boot_id) \<and> n \<noteq> 0 \<and>
    logged_boot_id_path = snprintf PATH_MAX (outdir crashlog @ ''/'' @ BOOTID_LOG)
      \<longrightarrow>
      snd (is_boot_id_changed w) =
        (if logged_boot_id_path \<notin> denied w \<and>
            (files w logged_boot_id_path = None \<or>
             (\<exists>logged. files w logged_boot_id_path = Some logged \<and> logged \<noteq> [] \<and>
                       c_str logged \<noteq> c_str boot_id))
         then w\<lparr>files := (files w)(logged_boot_id_path \<mapsto> c_str boot_id)\<rparr>
         else w) \<and>
      fst (is_boot_id_changed w) =
        (if logged_boot_id_path \<notin> denied w \<and>
            (\<exists>logged. files w logged_boot_id_path = Some logged \<and> logged \<noteq> [] \<and>
                      c_str logged = c_str boot_id)
         then 0 else 1))"
proof (intro conjI impI)
  show "snd (is_boot_id_changed w) = w" if "fst (is_boot_id_changed w) = 0"
    using that
    by (auto simp: is_boot_id_changed_def get_sender_by_name_def Let_def
        split: option.splits sum.splits prod.splits if_splits)
next
  assume "senders w ''crashlog'' = None \<or> (\<forall>n b. read_file w BOOTID_NODE = Inr (n, b) \<longrightarrow> n = 0)"
  then show "is_boot_id_changed w = (1, w)"
    by (auto simp: is_boot_id_changed_def get_sender_by_name_def
        split: option.splits sum.splits prod.splits)
next
  assume a: "senders w ''crashlog'' = Some crashlog \<and>
    read_file w BOOTID_NODE = Inr (n, boot_id) \<and> n \<noteq> 0 \<and>
    logged_boot_id_path = snprintf PATH_MAX (outdir crashlog @ ''/'' @ BOOTID_LOG)"
  then show "snd (is_boot_id_changed w) =
        (if logged_boot_id_path \<notin> denied w \<and>
            (files w logged_boot_id_path = None \<or>
             (\<exists>logged. files w logged_boot_id_path = Some logged \<and> logged \<noteq> [] \<and>
                       c_str logged \<noteq> c_str boot_id))
         then w\<lparr>files := (files w)(logged_boot_id_path \<mapsto> c_str boot_id)\<rparr>
         else w)"
    by (cases "files w logged_boot_id_path")
       (auto simp: is_boot_id_changed_def get_sender_by_name_def Let_def file_exists_def
          overwrite_file_def read_file_def)
  from a show "fst (is_boot_id_changed w) =
        (if logged_boot_id_path \<notin> denied w \<and>
            (\<exists>logged. files w logged_boot_id_path = Some logged \<and> logged \<noteq> [] \<and>
                      c_str logged = c_str boot_id)
         then 0 else 1)"
    by (cases "files w logged_boot_id_path")
       (auto simp: is_boot_id_changed_def get_sender_by_name_def Let_def file_exists_def
          overwrite_file_def read_file_def)
qed

lemma example_boot_id:
  "senders example_world ''crashlog'' =
     Some \<lparr>outdir = ''/var/log/crashlog'', maxcrashdirs = ''3''\<rparr>"
  "read_file example_world BOOTID_NODE = Inr (6, ''boot-A'')"
  "snprintf PATH_MAX (''/var/log/crashlog'' @ ''/'' @ BOOTID_LOG) = ''/var/log/crashlog/currentbootid''"
  by (simp_all add: example_world_def read_file_def snprintf_def PATH_MAX_def BOOTID_LOG_def)

text \<open>
  On the example machine no record exists: the result is 1 and the record holds
  the current boot id afterwards.
\<close>

theorem is_boot_id_changed_persist_witness:
  "fst (is_boot_id_changed example_world) = 1 \<and>
   files example_world ''/var/log/crashlog/currentbootid'' = None \<and>
   files (snd (is_boot_id_changed example_world)) ''/var/log/crashlog/currentbootid'' =
     Some ''boot-A''"
proof -
  have "denied example_world = {}"
    "files example_world ''/var/log/crashlog/currentbootid'' = None"
    by (simp_all add: example_world_def BOOTID_NODE_def)
  moreover have "c_str ''boot-A'' = ''boot-A''"
    by (simp add: c_str_def)
  ultimately show ?thesis
    using is_boot_id_changed_persist [of example_world
        "\<lparr>outdir = ''/var/log/crashlog'', maxcrashdirs = ''3''\<rparr>" 6 "''boot-A''"
        "''/var/log/crashlog/currentbootid''"]
    by (simp add: example_boot_id snprintf_def PATH_MAX_def BOOTID_LOG_def)
qed

text \<open>
  C8 as stated would have the record rewritten whenever it differs from the
  current boot id. With an empty record file the result is 1 and the world is
  unchanged: the record still differs from the current id boot-A.
\<close>

theorem is_boot_id_changed_empty_record_counterexample:
  "files (example_world\<lparr>files := (files example_world)(''/var/log/crashlog/currentbootid'' \<mapsto> '''')\<rparr>)
     BOOTID_NODE = Some ''boot-A'' \<and>
   is_boot_id_changed
     (example_world\<lparr>files := (files example_world)(''/var/log/crashlog/currentbootid'' \<mapsto> '''')\<rparr>) =
   (1, example_world\<lparr>files := (files example_world)(''/var/log/crashlog/currentbootid'' \<mapsto> '''')\<rparr>)"
  by (simp add: is_boot_id_changed_def get_sender_by_name_def read_file_def file_exists_def
      example_world_def snprintf_def PATH_MAX_def BOOTID_LOG_def BOOTID_NODE_def)

subsection \<open>The slot counter and the directory path\<close>

lemma digit_char_dec:
  assumes "d < 10"
  shows "isdigit (digit_char d)" and "of_char (digit_char d) = 48 + d"
proof -
  from assms have "d \<in> {0, 1, 2, 3, 4, 5, 6, 7, 8, 9}" by auto
  then show "isdigit (digit_char d)" and "of_char (digit_char d) = 48 + d"
    by (auto simp: digit_char_def isdigit_def)
qed

lemma digits_val_snoc: "digits_val (ds @ [c]) = 10 * digits_val ds + (of_char c - 48)"
  by (simp add: digits_val_def)

lemma dec_nat_digits: "list_all isdigit (dec_nat n)"
proof (induction n rule: dec_nat.induct)
  case (1 n)
  show ?case
  proof (cases "n < 10")
    case True
    then show ?thesis by (subst dec_nat.simps) (simp add: digit_char_dec)
  next
    case False
    with 1 show ?thesis by (subst dec_nat.simps) (simp add: digit_char_dec)
  qed
qed

lemma dec_nat_not_empty: "dec_nat n \<noteq> []"
  by (subst dec_nat.simps) simp

lemma digits_val_dec_nat: "digits_val (dec_nat n) = n"
proof (induction n rule: dec_nat.induct)
  case (1 n)
  show ?case
  proof (cases "n < 10")
    case True
    then show ?thesis
      by (subst dec_nat.simps) (simp add: digits_val_def digit_char_dec)
  next
    case False
    with 1 show ?thesis
      by (subst dec_nat.simps) (simp add: digits_val_snoc digit_char_dec)
  qed
qed

lemma parse_counter_dec_nat:
  "k < 2 ^ 32 \<Longrightarrow> parse_counter (dec_nat k) = Some (of_nat k)"
proof -
  assume k: "k < 2 ^ 32"
  have tw: "takeWhile isdigit (dec_nat k) = dec_nat k"
    using dec_nat_digits [of k] by (simp add: takeWhile_eq_all_conv list_all_iff)
  show ?thesis
    unfolding parse_counter_def Let_def tw
    using k by (simp add: dec_nat_not_empty digits_val_dec_nat)
qed

lemma mode_paths_shorter:
  "mode_paths out mode = Some (path, dir) \<Longrightarrow> length dir < length path"
  by (cases mode)
     (auto simp: mode_paths_def CRASH_CURRENT_LOG_def STATS_CURRENT_LOG_def VM_CURRENT_LOG_def)

lemma next_slot_bound:
  fixes maxdirs :: "32 word"
  assumes "maxdirs \<noteq> 0"
  shows "(c + 1) mod unat maxdirs < unat maxdirs" and "(c + 1) mod unat maxdirs < 2 ^ 32"
proof -
  have pos: "0 < unat maxdirs"
    using assms by (simp add: unat_gt_0)
  then show "(c + 1) mod unat maxdirs < unat maxdirs" by simp
  moreover have "unat maxdirs < 2 ^ 32"
    using unsigned_less [of maxdirs] by simp
  ultimately show "(c + 1) mod unat maxdirs < 2 ^ 32" by linarith
qed

lemma reserve_log_folder_ok:
  assumes sender: "senders w ''crashlog'' = Some crashlog"
    and paths: "mode_paths (outdir crashlog) mode = Some (path, dir)"
    and fits: "length path < 512"
    and io: "path \<notin> denied w"
    and slots: "atoi (maxcrashdirs crashlog) = maxdirs" "maxdirs \<noteq> 0"
    and cur: "file_read_int w path = Inr current"
  shows "reserve_log_folder w mode =
         Inr ((dir, current),
              w\<lparr>files := (files w)(path \<mapsto> dec_nat ((unat current + 1) mod unat maxdirs))\<rparr>)"
proof -
  have "length dir < PATH_MAX"
    using mode_paths_shorter [OF paths] fits by (simp add: PATH_MAX_def)
  then show ?thesis
    using assms
    by (simp add: reserve_log_folder_def get_sender_by_name_def file_update_int_def)
qed

lemma file_read_int_updated:
  assumes "path \<notin> denied w" and "k < 2 ^ 32"
  shows "file_read_int (w\<lparr>files := (files w)(path \<mapsto> dec_nat k)\<rparr>) path = Inr (of_nat k)"
  using assms by (simp add: file_read_int_def parse_counter_dec_nat)

lemma reserve_seq_from:
  assumes sender: "senders w ''crashlog'' = Some crashlog"
    and paths: "mode_paths (outdir crashlog) mode = Some (path, dir)"
    and fits: "length path < 512"
    and io: "path \<notin> denied w"
    and slots: "atoi (maxcrashdirs crashlog) = maxdirs" "maxdirs \<noteq> 0"
    and cur: "file_read_int w path = Inr (of_nat c)" "c < unat maxdirs"
  shows "\<exists>w'. reserve_seq n w mode =
               Inr (map (\<lambda>k. of_nat ((c + k) mod unat maxdirs)) [0..<n], w') \<and>
              file_read_int w' path = Inr (of_nat ((c + n) mod unat maxdirs))"
  using sender io cur
proof (induction n arbitrary: w c)
  case 0
  then show ?case by simp
next
  case (Suc n)
  let ?next = "(c + 1) mod unat maxdirs"
  let ?w1 = "w\<lparr>files := (files w)(path \<mapsto> dec_nat ?next)\<rparr>"
  have "unat maxdirs < 2 ^ 32"
    using unsigned_less [of maxdirs] by simp
  with Suc.prems(4) have c: "unat (of_nat c :: 32 word) = c"
    by (simp add: unat_of_nat)
  have step: "reserve_log_folder w mode = Inr ((dir, of_nat c), ?w1)"
    using reserve_log_folder_ok [OF Suc.prems(1) paths fits Suc.prems(2) slots Suc.prems(3)]
    by (simp add: c)
  have read: "file_read_int ?w1 path = Inr (of_nat ?next)"
    using Suc.prems(2) next_slot_bound(2) [OF slots(2)] by (rule file_read_int_updated)
  have "senders ?w1 ''crashlog'' = Some crashlog" "path \<notin> denied ?w1"
    using Suc.prems by simp_all
  from Suc.IH [OF this read next_slot_bound(1) [OF slots(2)]]
  obtain w' where rest: "reserve_seq n ?w1 mode =
      Inr (map (\<lambda>k. of_nat ((?next + k) mod unat maxdirs)) [0..<n], w')"
    and last: "file_read_int w' path = Inr (of_nat ((?next + n) mod unat maxdirs))"
    by blast
  have shift: "(?next + k) mod unat maxdirs = (c + Suc k) mod unat maxdirs" for k
    by (simp add: mod_add_left_eq)
  have "map (\<lambda>k. of_nat ((c + k) mod unat maxdirs) :: 32 word) [0..<Suc n] =
        of_nat ((c + 0) mod unat maxdirs) #
        map (\<lambda>k. of_nat ((c + Suc k) mod unat maxdirs)) [0..<n]"
    by (rule map_upt_Suc)
  also have "\<dots> = of_nat c # map (\<lambda>k. of_nat ((?next + k) mod unat maxdirs)) [0..<n]"
    using Suc.prems(4) by (simp only: shift) simp
  finally have "reserve_seq (Suc n) w mode =
      Inr (map (\<lambda>k. of_nat ((c + k) mod unat maxdirs)) [0..<Suc n], w')"
    using step rest by (simp del: upt_Suc)
  moreover have "file_read_int w' path = Inr (of_nat ((c + Suc n) mod unat maxdirs))"
    using last by (simp only: shift)
  ultimately show ?case by blast
qed


lemma sint_small:
  fixes x :: "32 word"
  assumes "unat x < 2 ^ 31"
  shows "sint x = int (unat x)"
proof -
  have "int (unat x) < 2 ^ 31"
    using assms by (metis of_nat_less_iff of_nat_numeral of_nat_power)
  then have "uint x < 2 ^ 31" by simp
  moreover have "- (2 ^ 31) \<le> uint x"
    by (rule order_trans [of _ 0]) simp_all
  ultimately have "signed_take_bit 31 (uint x) = uint x"
    by (rule signed_take_bit_int_eq_self [rotated])
  then show ?thesis by (simp add: sint_uint)
qed


lemma fmt_d_small:
  fixes x :: "32 word"
  shows "unat x < 2 ^ 31 \<Longrightarrow> fmt_d (sint x) = dec_nat (unat x)"
  by (simp add: sint_small fmt_d_def)

lemma file_read_int_total:
  "path \<notin> denied w \<Longrightarrow> \<exists>current. file_read_int w path = Inr current"
  by (simp add: file_read_int_def split: option.splits)

text \<open>
  C1. With the sender crashlog configured for \<open>maxdirs\<close> slots (not 0) and the
  counter file accessible: starting from a counter that reads 0, \<open>maxdirs + 1\<close>
  reservations in sequence return the indices 0, 1, ..., \<open>maxdirs - 1\<close>, 0, and
  any number \<open>n\<close> of them returns \<open>k mod maxdirs\<close> at position \<open>k\<close> and leaves the
  counter at \<open>n mod maxdirs\<close>; and from any state, a reservation returns the
  counter read, and leaves a counter that reads back as a value below \<open>maxdirs\<close>,
  one more than the index modulo \<open>maxdirs\<close>.
\<close>

theorem reserve_log_folder_ring:
  assumes "senders w ''crashlog'' = Some crashlog"
    and "mode_paths (outdir crashlog) mode = Some (path, dir)"
    and "length path < 512"
    and "path \<notin> denied w"
    and "atoi (maxcrashdirs crashlog) = maxdirs" and "maxdirs \<noteq> 0"
  shows "(file_read_int w path = Inr 0 \<longrightarrow>
            (\<exists>w'. reserve_seq (unat maxdirs + 1) w mode =
                     Inr (map of_nat [0..<unat maxdirs] @ [0], w')) \<and>
            (\<forall>n. \<exists>w'. reserve_seq n w mode =
                     Inr (map (\<lambda>k. of_nat (k mod unat maxdirs)) [0..<n], w') \<and>
                   file_read_int w' path = Inr (of_nat (n mod unat maxdirs)))) \<and>
         (\<exists>current next.
            file_read_int w path = Inr current \<and>
            reserve_log_folder w mode =
              Inr ((dir, current), w\<lparr>files := (files w)(path \<mapsto> dec_nat (unat next))\<rparr>) \<and>
            file_read_int (w\<lparr>files := (files w)(path \<mapsto> dec_nat (unat next))\<rparr>) path =
              Inr next \<and>
            next < maxdirs \<and> unat next = (unat current + 1) mod unat maxdirs)"
proof (intro conjI impI)
  assume zero: "file_read_int w path = Inr 0"
  have pos: "0 < unat maxdirs"
    using assms(6) by (simp add: unat_gt_0)
  have seq: "\<exists>w'. reserve_seq n w mode =
                Inr (map (\<lambda>k. of_nat (k mod unat maxdirs)) [0..<n], w') \<and>
              file_read_int w' path = Inr (of_nat (n mod unat maxdirs))" for n
    using reserve_seq_from [OF assms, of 0 n] zero pos by simp
  then show "\<forall>n. \<exists>w'. reserve_seq n w mode =
                Inr (map (\<lambda>k. of_nat (k mod unat maxdirs)) [0..<n], w') \<and>
              file_read_int w' path = Inr (of_nat (n mod unat maxdirs))"
    by blast
  have "map (\<lambda>k. of_nat (k mod unat maxdirs) :: 32 word) [0..<unat maxdirs + 1] =
        map of_nat [0..<unat maxdirs] @ [0]"
    by simp
  with seq [of "unat maxdirs + 1"]
  show "\<exists>w'. reserve_seq (unat maxdirs + 1) w mode =
               Inr (map of_nat [0..<unat maxdirs] @ [0], w')"
    by auto
next
  obtain current where cur: "file_read_int w path = Inr current"
    using file_read_int_total [OF assms(4)] by blast
  let ?k = "(unat current + 1) mod unat maxdirs"
  let ?next = "of_nat ?k :: 32 word"
  have k: "?k < unat maxdirs" "?k < 2 ^ 32"
    using next_slot_bound [OF assms(6)] by simp_all
  then have un: "unat ?next = ?k"
    by (simp add: unat_of_nat)
  have "?next < maxdirs"
    using k(1) un by (simp add: word_less_nat_alt)
  moreover have "reserve_log_folder w mode =
      Inr ((dir, current), w\<lparr>files := (files w)(path \<mapsto> dec_nat (unat ?next))\<rparr>)"
    using reserve_log_folder_ok [OF assms cur] by (simp only: un)
  moreover have "file_read_int (w\<lparr>files := (files w)(path \<mapsto> dec_nat (unat ?next))\<rparr>) path =
      Inr ?next"
    using file_read_int_updated [OF assms(4) k(2)] by (simp only: un)
  ultimately show "\<exists>current next.
            file_read_int w path = Inr current \<and>
            reserve_log_folder w mode =
              Inr ((dir, current), w\<lparr>files := (files w)(path \<mapsto> dec_nat (unat next))\<rparr>) \<and>
            file_read_int (w\<lparr>files := (files w)(path \<mapsto> dec_nat (unat next))\<rparr>) path =
              Inr next \<and>
            next < maxdirs \<and> unat next = (unat current + 1) mod unat maxdirs"
    using cur un by blast
qed

lemma example_sender:
  "senders example_world ''crashlog'' =
     Some \<lparr>outdir = ''/var/log/crashlog'', maxcrashdirs = ''3''\<rparr>"
  "denied example_world = {}"
  "atoi ''3'' = 3"
  by (simp_all add: example_world_def atoi_def isspace_def isdigit_def digits_val_def)

text \<open>
  On the example machine, with three slots, four reservations return 0, 1, 2, 0.
\<close>

theorem reserve_log_folder_ring_witness:
  "\<exists>w'. reserve_seq 4 example_world MODE_CRASH = Inr ([0, 1, 2, 0], w')"
proof -
  have "mode_paths ''/var/log/crashlog'' MODE_CRASH =
      Some (''/var/log/crashlog/currentcrashlog'', ''/var/log/crashlog/crashlog'')"
    by (simp add: mode_paths_def CRASH_CURRENT_LOG_def)
  moreover have "file_read_int example_world ''/var/log/crashlog/currentcrashlog'' = Inr 0"
    by (simp add: file_read_int_def example_world_def BOOTID_NODE_def)
  moreover have "map (of_nat :: nat \<Rightarrow> 32 word) [0..<3] @ [0] = [0, 1, 2, 0]"
    by (simp add: upt_rec)
  ultimately show ?thesis
    using reserve_log_folder_ring [of example_world
        "\<lparr>outdir = ''/var/log/crashlog'', maxcrashdirs = ''3''\<rparr>" MODE_CRASH
        "''/var/log/crashlog/currentcrashlog''" "''/var/log/crashlog/crashlog''" 3]
    by (simp add: example_sender)
qed


text \<open>
  C4. When the counter file does not exist or is malformed, the index read is 0
  and the reservation succeeds with index 0 (the sender configured with a slot
  count that is not 0, the counter path accessible).
\<close>

theorem reserve_log_folder_fresh:
  assumes "senders w ''crashlog'' = Some crashlog"
    and "mode_paths (outdir crashlog) mode = Some (path, dir)"
    and "length path < 512"
    and "path \<notin> denied w"
    and "atoi (maxcrashdirs crashlog) \<noteq> 0"
    and "files w path = None \<or> (\<exists>s. files w path = Some s \<and> parse_counter s = None)"
  shows "file_read_int w path = Inr 0 \<and>
         (\<exists>w'. reserve_log_folder w mode = Inr ((dir, 0), w'))"
proof -
  have zero: "file_read_int w path = Inr 0"
    using assms(4,6) by (auto simp: file_read_int_def)
  with reserve_log_folder_ok [OF assms(1-4) refl assms(5)] show ?thesis
    by simp
qed

text \<open>
  On the example machine: with no counter file, and with one that holds no number.
\<close>

theorem reserve_log_folder_fresh_witness:
  "files example_world ''/var/log/crashlog/currentstatslog'' = None \<and>
   (\<exists>w'. reserve_log_folder example_world MODE_STATS = Inr ((''/var/log/crashlog/stats'', 0), w')) \<and>
   parse_counter ''n/a'' = None \<and>
   (\<exists>w'. reserve_log_folder
           (example_world\<lparr>files := [''/var/log/crashlog/currentstatslog'' \<mapsto> ''n/a'']\<rparr>)
           MODE_STATS = Inr ((''/var/log/crashlog/stats'', 0), w'))"
proof -
  let ?w = "example_world\<lparr>files := [''/var/log/crashlog/currentstatslog'' \<mapsto> ''n/a'']\<rparr>"
  have paths: "mode_paths ''/var/log/crashlog'' MODE_STATS =
      Some (''/var/log/crashlog/currentstatslog'', ''/var/log/crashlog/stats'')"
    by (simp add: mode_paths_def STATS_CURRENT_LOG_def)
  have none: "files example_world ''/var/log/crashlog/currentstatslog'' = None"
    by (simp add: example_world_def BOOTID_NODE_def)
  have bad: "parse_counter ''n/a'' = None"
    by (simp add: parse_counter_def isdigit_def)
  have w: "senders ?w ''crashlog'' = Some \<lparr>outdir = ''/var/log/crashlog'', maxcrashdirs = ''3''\<rparr>"
    "denied ?w = {}"
    by (simp_all add: example_world_def)
  show ?thesis
    using reserve_log_folder_fresh [of example_world
        "\<lparr>outdir = ''/var/log/crashlog'', maxcrashdirs = ''3''\<rparr>" MODE_STATS
        "''/var/log/crashlog/currentstatslog''" "''/var/log/crashlog/stats''"]
      reserve_log_folder_fresh [of ?w
        "\<lparr>outdir = ''/var/log/crashlog'', maxcrashdirs = ''3''\<rparr>" MODE_STATS
        "''/var/log/crashlog/currentstatslog''" "''/var/log/crashlog/stats''"]
    by (simp add: example_sender paths none bad w)
qed

text \<open>
  C3, as the code has it. The path that \<open>generate_log_dir\<close> creates and returns
  is the output directory, a separator, the name crashlog, stats or vmevent of
  the mode, then at once (with no separator) the counter read at the reservation
  as \<^verbatim>\<open>%d\<close> prints it, an underscore and the hash key. Below \<open>2 ^ 31\<close> the printed
  index is the decimal counter value.
\<close>

theorem generate_log_dir_path:
  assumes "generate_log_dir w mode hashkey = Inr (path, w')"
  shows "\<exists>crashlog current sub counter.
      senders w ''crashlog'' = Some crashlog \<and>
      (mode, sub, counter) \<in> {(MODE_CRASH, ''crashlog'', CRASH_CURRENT_LOG),
                                (MODE_STATS, ''stats'', STATS_CURRENT_LOG),
                                (MODE_VMEVENT, ''vmevent'', VM_CURRENT_LOG)} \<and>
      file_read_int w (outdir crashlog @ ''/'' @ counter) = Inr current \<and>
      path = outdir crashlog @ ''/'' @ sub @ fmt_d (sint current) @ ''_'' @ hashkey \<and>
      (unat current < 2 ^ 31 \<longrightarrow> fmt_d (sint current) = dec_nat (unat current)) \<and>
      path \<in> dirs w'"
proof -
  from assms obtain dir current w1 where
    res: "reserve_log_folder w mode = Inr ((dir, current), w1)"
    by (auto simp: generate_log_dir_def split: sum.splits)
  then obtain crashlog cpath where
    sender: "senders w ''crashlog'' = Some crashlog"
    and paths: "mode_paths (outdir crashlog) mode = Some (cpath, dir)"
    and cur: "file_read_int w cpath = Inr current"
    by (auto simp: reserve_log_folder_def get_sender_by_name_def Let_def
        split: option.splits sum.splits if_splits)
  from assms res have path: "path = dir @ fmt_d (sint current) @ ''_'' @ hashkey"
    and made: "path \<in> dirs w'"
    by (auto simp: generate_log_dir_def mkdir_def Let_def
        split: sum.splits prod.splits bool.splits if_splits)
  from paths obtain sub counter where
    "(mode, sub, counter) \<in> {(MODE_CRASH, ''crashlog'', CRASH_CURRENT_LOG),
                               (MODE_STATS, ''stats'', STATS_CURRENT_LOG),
                               (MODE_VMEVENT, ''vmevent'', VM_CURRENT_LOG)}"
    "cpath = outdir crashlog @ ''/'' @ counter" "dir = outdir crashlog @ ''/'' @ sub"
    by (cases mode) (auto simp: mode_paths_def)
  with sender cur path made fmt_d_small [of current] show ?thesis
    by (intro exI [of _ crashlog] exI [of _ current] exI [of _ sub] exI [of _ counter]) simp
qed

lemma example_log_dir:
  "generate_log_dir example_world MODE_CRASH ''abc'' =
     Inr (''/var/log/crashlog/crashlog0_abc'',
          example_world\<lparr>files := (files example_world)(''/var/log/crashlog/currentcrashlog'' \<mapsto> ''1''),
                          dirs := {''/var/log/crashlog/crashlog0_abc''}\<rparr>)"
proof -
  let ?w1 = "example_world\<lparr>files := (files example_world)(''/var/log/crashlog/currentcrashlog'' \<mapsto> ''1'')\<rparr>"
  have "mode_paths ''/var/log/crashlog'' MODE_CRASH =
      Some (''/var/log/crashlog/currentcrashlog'', ''/var/log/crashlog/crashlog'')"
    by (simp add: mode_paths_def CRASH_CURRENT_LOG_def)
  moreover have "file_read_int example_world ''/var/log/crashlog/currentcrashlog'' = Inr 0"
    by (simp add: file_read_int_def example_world_def BOOTID_NODE_def)
  moreover have "dec_nat 1 = ''1''" "dec_nat 0 = ''0''"
    by (simp_all add: dec_nat.simps digit_char_def)
  ultimately have "reserve_log_folder example_world MODE_CRASH =
      Inr ((''/var/log/crashlog/crashlog'', 0), ?w1)"
    using reserve_log_folder_ok [of example_world
        "\<lparr>outdir = ''/var/log/crashlog'', maxcrashdirs = ''3''\<rparr>" MODE_CRASH
        "''/var/log/crashlog/currentcrashlog''" "''/var/log/crashlog/crashlog''" 3 0]
    by (simp add: example_sender)
  moreover have "alloc ?w1 = (True, ?w1)"
    by (simp add: alloc_def example_world_def)
  moreover have "fmt_d (sint (0 :: 32 word)) = ''0''"
    by (simp add: fmt_d_def dec_nat.simps digit_char_def)
  moreover have "mkdir ?w1 ''/var/log/crashlog/crashlog0_abc'' =
      Inr (?w1\<lparr>dirs := {''/var/log/crashlog/crashlog0_abc''}\<rparr>)"
    by (simp add: mkdir_def example_world_def BOOTID_NODE_def)
  ultimately show ?thesis
    by (simp add: generate_log_dir_def Let_def)
qed

text \<open>
  On the example machine the first crash directory is crashlog0_abc.
\<close>

theorem generate_log_dir_path_witness:
  "\<exists>current.
     file_read_int example_world (''/var/log/crashlog'' @ ''/'' @ CRASH_CURRENT_LOG) = Inr current \<and>
     ''/var/log/crashlog/crashlog0_abc'' =
       ''/var/log/crashlog'' @ ''/'' @ ''crashlog'' @ fmt_d (sint current) @ ''_'' @ ''abc''"
  using generate_log_dir_path [OF example_log_dir]
  by (auto simp: example_sender)

text \<open>
  C3 as stated has a separator between the name of the subdirectory and the
  index. On the example machine the path created has none.
\<close>

theorem generate_log_dir_separator_counterexample:
  "map_sum id fst (generate_log_dir example_world MODE_CRASH ''abc'') =
     Inr ''/var/log/crashlog/crashlog0_abc'' \<and>
   ''/var/log/crashlog/crashlog0_abc'' \<noteq>
     ''/var/log/crashlog'' @ ''/'' @ ''crashlog'' @ ''/'' @ ''0'' @ ''_'' @ ''abc''"
  by (simp add: example_log_dir)

end
